theory Spec2Isabelle
  imports Main
begin

section \<open>The MailerLite client: values of the Go program\<close>

text \<open>
  The client (\<^verbatim>\<open>client.go\<close>, \<^verbatim>\<open>meta.go\<close>) is a thin layer over Go's
  \<^verbatim>\<open>net/http\<close>, \<^verbatim>\<open>net/url\<close>, \<^verbatim>\<open>encoding/json\<close> and
  \<^verbatim>\<open>go-querystring\<close>. The functions of the repository are embedded one by one,
  under their own names. The packages they call are not part of the repository: they
  enter as the fields of a record \<open>stdlib\<close> of functions, so that every theorem
  holds for whatever those packages compute.

  A Go call either returns or panics (an index out of range, a nil dereference).
\<close>

datatype 'a outcome = Panics | Returns 'a

text \<open>
  An \<^verbatim>\<open>interface{}\<close> argument (\<^verbatim>\<open>body\<close>, \<^verbatim>\<open>opt\<close>): the nil interface, a
  typed nil pointer, or any other value.
\<close>

datatype 'a iface = NilInterface | NilPointer | NonNil 'a

text \<open>
  What \<^verbatim>\<open>encoding/json\<close> stores in an \<^verbatim>\<open>interface{}\<close> field (the
  \<^verbatim>\<open>Errors\<close> payload); a number is kept as its literal.
\<close>

datatype go_any =
    Bool bool
  | Number string
  | String string
  | Slice "go_any list"
  | Object "(string \<times> go_any) list"

text \<open>\<^verbatim>\<open>url.URL\<close>, the fields the client touches, and \<^verbatim>\<open>url.Values\<close>
  (\<^verbatim>\<open>map[string][]string\<close>; \<^verbatim>\<open>http.Header\<close> has the same shape).\<close>

record URL =
  Scheme :: string
  Host :: string
  Path :: string
  RawQuery :: string
  Fragment :: string

type_synonym Values = "string \<rightharpoonup> string list"

definition Values_Get :: "Values \<Rightarrow> string \<Rightarrow> string" where
  "Values_Get v key = (case v key of None \<Rightarrow> [] | Some [] \<Rightarrow> [] | Some (x # _) \<Rightarrow> x)"

definition Values_Add :: "string \<Rightarrow> string \<Rightarrow> Values \<Rightarrow> Values" where
  "Values_Add key val v = v(key \<mapsto> (case v key of None \<Rightarrow> [] | Some vs \<Rightarrow> vs) @ [val])"

definition Values_Set :: "string \<Rightarrow> string \<Rightarrow> Values \<Rightarrow> Values" where
  "Values_Set key val v = v(key \<mapsto> [val])"

text \<open>
  A response body is a stream (\<^verbatim>\<open>io.ReadCloser\<close>): the bytes not yet read, and
  the error the stream ends with in place of end-of-file, if any. Reading moves the
  stream forward; nothing in the client rewinds it. The client is handed responses by
  \<^verbatim>\<open>http.Client.Do\<close>, which returns a response whenever it returns no error
  and never leaves its \<^verbatim>\<open>Body\<close> nil, so a response is a value and its body a
  stream, neither a pointer that may be nil.
\<close>

record reader =
  pending :: string
  fault :: "string option"

text \<open>
  A \<^verbatim>\<open>context.Context\<close> as the client observes it: whether its
  \<^verbatim>\<open>Done\<close> channel is closed, and what \<^verbatim>\<open>Err()\<close> returns (the message
  of the error, \<open>None\<close> for nil).
\<close>

record Context =
  Done :: bool
  Err :: "string option"

definition Background :: Context where
  "Background = \<lparr>Done = False, Err = None\<rparr>"

record http_request =
  Method :: string
  ReqURL :: "URL option"
  Header :: Values
  ReqBody :: string
  ReqCtx :: Context

text \<open>
  The status code is a Go \<^verbatim>\<open>int\<close>; the client compares it with constants and
  prints it, and never computes with it, so it is an integer here.
\<close>

record http_response =
  StatusCode :: int
  Body :: reader
  Request :: "http_request option"

text \<open>
  \<^verbatim>\<open>ErrorResponse\<close> (client.go 40-44). \<^verbatim>\<open>Response\<close> is a pointer to the
  response being classified: \<open>Some r\<close> holds the state of that object, \<open>None\<close>
  is the nil pointer. \<^verbatim>\<open>AuthError\<close> is the same struct under another type name, so
  the two error types are two constructors over one record; \<open>Failure\<close> stands for
  every error value made by a library, by its message.
\<close>

record ErrorResponse =
  Response :: "http_response option"
  Message :: string
  Errors :: "go_any option"

datatype error =
    Failure string
  | APIError ErrorResponse
  | AuthError ErrorResponse

text \<open>
  The packages the client calls. \<open>json_Unmarshal\<close> is
  \<^verbatim>\<open>json.Unmarshal(data, errorResponse)\<close>: it receives the struct and returns it as
  the call leaves it. The struct's \<^verbatim>\<open>Response\<close> field is exported and carries no
  \<^verbatim>\<open>json\<close> tag, so it is one of the fields the decoder may write, through the
  pointer, into the response object itself. \<open>fmt_q\<close> is the verb
  \<^verbatim>\<open>%q\<close> on a string (\<^verbatim>\<open>strconv.Quote\<close>). \<open>query_Values\<close> is
  \<^verbatim>\<open>query.Values\<close> on a value that is not nil; its result is a Go map, given here
  as the list of its entries in the order a \<^verbatim>\<open>range\<close> loop visits them.
\<close>

record ('a, 't) stdlib =
  url_Parse :: "string \<Rightarrow> error + URL"
  url_ParseRequestURI :: "string \<Rightarrow> error + URL"
  URL_Query :: "URL \<Rightarrow> Values"
  URL_String :: "URL \<Rightarrow> string"
  Values_Encode :: "Values \<Rightarrow> string"
  query_Values :: "'a \<Rightarrow> error + (string \<times> string list) list"
  json_Marshal :: "'a \<Rightarrow> error + string"
  json_Unmarshal :: "string \<Rightarrow> ErrorResponse \<Rightarrow> ErrorResponse \<times> error option"
  json_Decode :: "reader \<Rightarrow> 't \<Rightarrow> error option \<times> 't \<times> reader"
  validMethod :: "string \<Rightarrow> bool"
  fmt_q :: "string \<Rightarrow> string"

section \<open>Response classification (client.go 156-181)\<close>

text \<open>
  \<^verbatim>\<open>ioutil.ReadAll\<close>: everything up to the end of the stream, the stream's error
  if it has one, and the stream left at its end.
\<close>

definition ioutil_ReadAll :: "reader \<Rightarrow> (string \<times> error option) \<times> reader" where
  "ioutil_ReadAll b = ((pending b, map_option Failure (fault b)), b\<lparr>pending := []\<rparr>)"

text \<open>
  Lines 165-173: the error record is created around the response, the body is read,
  and a readable, non-empty body is decoded into the record; when decoding fails the
  raw body becomes the message. The result is the record together with the state of
  the response object \<^verbatim>\<open>r\<close> after the decoder has run: the decoder writes into the
  object through the record's pointer, unless it has cleared the pointer.
\<close>

definition readError :: "('a, 't) stdlib \<Rightarrow> http_response \<Rightarrow> ErrorResponse \<times> http_response" where
  "readError lib r =
     (case ioutil_ReadAll (Body r) of
        ((data, err), body') \<Rightarrow>
          let r1 = r\<lparr>Body := body'\<rparr>;
              errorResponse = \<lparr>Response = Some r1, Message = [], Errors = None\<rparr>
          in if err = None \<and> length data > 0
             then (case json_Unmarshal lib data errorResponse of
                     (decoded, uerr) \<Rightarrow>
                       let r2 = (case Response decoded of None \<Rightarrow> r1 | Some r' \<Rightarrow> r')
                       in (if uerr \<noteq> None then decoded\<lparr>Message := data\<rparr> else decoded, r2))
             else (errorResponse, r1))"

text \<open>
  \<^verbatim>\<open>checkResponse\<close>: the returned error (\<open>None\<close> is Go's nil) and the response
  object as the call leaves it.
\<close>

definition checkResponse :: "('a, 't) stdlib \<Rightarrow> http_response \<Rightarrow> error option \<times> http_response" where
  "checkResponse lib r =
     (if StatusCode r = 202 then (None, r)
      else if StatusCode r \<ge> 200 \<and> StatusCode r \<le> 299 then (None, r)
      else (case readError lib r of
              (errorResponse, r') \<Rightarrow>
                if StatusCode r' = 401 then (Some (AuthError errorResponse), r')
                else (Some (APIError errorResponse), r')))"

text \<open>
  \<^verbatim>\<open>ErrorResponse.Error\<close> (client.go 46-50) and \<^verbatim>\<open>AuthError.Error\<close>
  (line 55, the same function after a conversion). \<^verbatim>\<open>%d\<close> prints the status
  code in decimal, \<^verbatim>\<open>%v\<close> prints a string as it is and a \<^verbatim>\<open>*url.URL\<close>
  through its \<^verbatim>\<open>String\<close> method (\<^verbatim>\<open><nil>\<close> for the nil pointer). The
  method panics when \<^verbatim>\<open>Response\<close> or its \<^verbatim>\<open>Request\<close> is nil.
\<close>

fun decimal :: "nat \<Rightarrow> string" where
  "decimal n = (if n < 10 then [''0123456789'' ! n] else decimal (n div 10) @ [''0123456789'' ! (n mod 10)])"

declare decimal.simps [simp del]

definition fmt_d :: "int \<Rightarrow> string" where
  "fmt_d i = (if i < 0 then CHR ''-'' # decimal (nat (- i)) else decimal (nat i))"

definition fmt_v_URL :: "('a, 't) stdlib \<Rightarrow> URL option \<Rightarrow> string" where
  "fmt_v_URL lib u = (case u of None \<Rightarrow> ''<nil>'' | Some u' \<Rightarrow> URL_String lib u')"

definition Error :: "('a, 't) stdlib \<Rightarrow> ErrorResponse \<Rightarrow> string outcome" where
  "Error lib r =
     (case Response r of
        None \<Rightarrow> Panics
      | Some resp \<Rightarrow>
          (case Request resp of
             None \<Rightarrow> Panics
           | Some req \<Rightarrow>
               Returns (Method req @ '' '' @ fmt_v_URL lib (ReqURL req) @ '': '' @
                        fmt_d (StatusCode resp) @ '' '' @ Message r)))"

text \<open>The \<^verbatim>\<open>Error\<close> method of an error value of either type.\<close>

definition error_string :: "('a, 't) stdlib \<Rightarrow> error \<Rightarrow> string outcome" where
  "error_string lib e =
     (case e of Failure msg \<Rightarrow> Returns msg | APIError r \<Rightarrow> Error lib r | AuthError r \<Rightarrow> Error lib r)"

section \<open>Query options (client.go 183-227)\<close>

text \<open>
  Lines 205-218, the loop over \<^verbatim>\<open>newValues\<close>. Its state is
  \<^verbatim>\<open>filterKey\<close>, \<^verbatim>\<open>filterValue\<close> and \<^verbatim>\<open>origValues\<close>; \<^verbatim>\<open>v[0]\<close>
  panics on an empty slice.
\<close>

fun options_loop ::
  "(string \<times> string list) list \<Rightarrow> string \<times> string \<times> Values \<Rightarrow> (string \<times> string \<times> Values) outcome" where
  "options_loop [] st = Returns st"
| "options_loop ((k, v) # rest) (filterKey, filterValue, origValues) =
     (if k = ''Filter'' then options_loop rest (filterKey, filterValue, origValues)
      else if k = ''Filter[Name]'' then
        (case v of
           [] \<Rightarrow> Panics
         | v0 # _ \<Rightarrow> options_loop rest (''filter['' @ v0 @ '']'', filterValue, origValues))
      else if k = ''Filter[Value]'' then
        (case v of
           [] \<Rightarrow> Panics
         | v0 # _ \<Rightarrow> options_loop rest (filterKey, v0, origValues))
      else options_loop rest (filterKey, filterValue, origValues(k \<mapsto> v)))"

text \<open>Lines 202-222: the loop from empty filter strings, then the filter parameter.\<close>

definition mergeOptions :: "Values \<Rightarrow> (string \<times> string list) list \<Rightarrow> Values outcome" where
  "mergeOptions origValues newValues =
     (case options_loop newValues ([], [], origValues) of
        Panics \<Rightarrow> Panics
      | Returns (filterKey, filterValue, vals) \<Rightarrow>
          Returns (if filterKey \<noteq> [] then Values_Add filterKey filterValue vals else vals))"

text \<open>
  \<^verbatim>\<open>query.Values(opt)\<close>: go-querystring returns an empty map for a nil interface
  and for a nil pointer, and encodes every other value.
\<close>

definition query_Values_of :: "('a, 't) stdlib \<Rightarrow> 'a iface \<Rightarrow> error + (string \<times> string list) list" where
  "query_Values_of lib opt =
     (case opt of NilInterface \<Rightarrow> Inr [] | NilPointer \<Rightarrow> Inr [] | NonNil x \<Rightarrow> query_Values lib x)"

definition addOptions :: "('a, 't) stdlib \<Rightarrow> string \<Rightarrow> 'a iface \<Rightarrow> (string \<times> error option) outcome" where
  "addOptions lib s opt =
     (case opt of
        NilPointer \<Rightarrow> Returns (s, None)
      | _ \<Rightarrow>
        (case url_Parse lib s of
           Inl err \<Rightarrow> Returns (s, Some err)
         | Inr origURL \<Rightarrow>
             (case query_Values_of lib opt of
                Inl err \<Rightarrow> Returns (s, Some err)
              | Inr newValues \<Rightarrow>
                  (case mergeOptions (URL_Query lib origURL) newValues of
                     Panics \<Rightarrow> Panics
                   | Returns vals \<Rightarrow>
                       Returns (URL_String lib (origURL\<lparr>RawQuery := Values_Encode lib vals\<rparr>), None)))))"

text \<open>
  The keys the loop intercepts, and the keys of the form \<^verbatim>\<open>filter[...]\<close>.
\<close>

definition raw_key :: "string \<Rightarrow> bool" where
  "raw_key k = (k = ''Filter'' \<or> k = ''Filter[Name]'' \<or> k = ''Filter[Value]'')"

definition filter_key :: "string \<Rightarrow> bool" where
  "filter_key k = (take 7 k = ''filter['')"

section \<open>Building a request (client.go 91-117)\<close>

record Client =
  apiBase :: string
  apiKey :: string
  client :: "http_request \<Rightarrow> error + http_response"

text \<open>
  \<^verbatim>\<open>json.NewEncoder(buf).Encode(body)\<close>: the JSON text of the value and a newline;
  nothing is written when encoding fails. A nil interface and a nil pointer encode as
  \<^verbatim>\<open>null\<close>.
\<close>

definition json_Encode :: "('a, 't) stdlib \<Rightarrow> 'a iface \<Rightarrow> error + string" where
  "json_Encode lib v =
     (case (case v of
              NilInterface \<Rightarrow> Inr ''null''
            | NilPointer \<Rightarrow> Inr ''null''
            | NonNil x \<Rightarrow> json_Marshal lib x) of
        Inl err \<Rightarrow> Inl err
      | Inr text \<Rightarrow> Inr (text @ [CHR 0x0A]))"

text \<open>
  \<^verbatim>\<open>removeEmptyPort\<close> of \<^verbatim>\<open>net/http\<close>, with \<^verbatim>\<open>strings.LastIndex\<close> (the
  position of the last occurrence, -1 when there is none) and \<^verbatim>\<open>hasPort\<close>: a host
  that ends in a colon after its last bracket loses that colon.
\<close>

fun scan_last :: "char \<Rightarrow> string \<Rightarrow> int \<Rightarrow> int \<Rightarrow> int" where
  "scan_last c [] i found = found"
| "scan_last c (x # xs) i found = scan_last c xs (i + 1) (if x = c then i else found)"

definition strings_LastIndex :: "string \<Rightarrow> char \<Rightarrow> int" where
  "strings_LastIndex s c = scan_last c s 0 (- 1)"

definition hasPort :: "string \<Rightarrow> bool" where
  "hasPort s = (strings_LastIndex s (CHR '':'') > strings_LastIndex s (CHR '']''))"

definition removeEmptyPort :: "string \<Rightarrow> string" where
  "removeEmptyPort host =
     (if hasPort host
      then (if host \<noteq> [] \<and> last host = CHR '':'' then butlast host else host)
      else host)"

text \<open>
  \<^verbatim>\<open>http.NewRequest\<close>: an empty method means \<^verbatim>\<open>GET\<close>; the method must be a
  valid token, or the error names it quoted; the URL must parse, or the error is the
  parser's. The request carries the method, the parsed URL with an empty port removed
  from its host, no header yet, the body it was given and the background context.
\<close>

definition http_NewRequest :: "('a, 't) stdlib \<Rightarrow> string \<Rightarrow> string \<Rightarrow> string \<Rightarrow> error + http_request" where
  "http_NewRequest lib method url body =
     (let m = (if method = [] then ''GET'' else method) in
      if \<not> validMethod lib m then Inl (Failure (''net/http: invalid method '' @ fmt_q lib m))
      else (case url_Parse lib url of
              Inl err \<Rightarrow> Inl err
            | Inr u \<Rightarrow>
                Inr \<lparr>Method = m, ReqURL = Some (u\<lparr>Host := removeEmptyPort (Host u)\<rparr>),
                     Header = Map.empty, ReqBody = body, ReqCtx = Background\<rparr>))"

text \<open>Lines 111-114: the four headers, in the order the code sets them.\<close>

definition set_headers :: "Client \<Rightarrow> http_request \<Rightarrow> http_request" where
  "set_headers c req =
     req\<lparr>Header :=
       Values_Set ''User-Agent'' ''Mailerlite-Client-Golang-v1''
        (Values_Set ''Accept'' ''application/json''
          (Values_Add ''Authorization'' (''Bearer '' @ apiKey c)
            (Values_Set ''Content-Type'' ''application/json'' (Header req))))\<rparr>"

text \<open>
  Lines 92-104 compute the URL and the body bytes that go to \<^verbatim>\<open>http.NewRequest\<close>:
  the JSON body for the three mutating methods, the URL with its options for
  \<^verbatim>\<open>GET\<close> (the error of \<^verbatim>\<open>addOptions\<close> is dropped), and for any other method
  the plain URL and an empty buffer.
\<close>

definition request_parts ::
  "('a, 't) stdlib \<Rightarrow> Client \<Rightarrow> string \<Rightarrow> string \<Rightarrow> 'a iface \<Rightarrow> (error + string \<times> string) outcome" where
  "request_parts lib c method path body =
     (let reqURL = apiBase c @ path in
      if method = ''POST'' \<or> method = ''PUT'' \<or> method = ''DELETE'' then
        (case json_Encode lib body of
           Inl err \<Rightarrow> Returns (Inl err)
         | Inr reqBodyBytes \<Rightarrow> Returns (Inr (reqURL, reqBodyBytes)))
      else if method = ''GET'' then
        (case addOptions lib reqURL body of
           Panics \<Rightarrow> Panics
         | Returns (reqURL', _) \<Rightarrow> Returns (Inr (reqURL', [])))
      else Returns (Inr (reqURL, [])))"

definition newRequest ::
  "('a, 't) stdlib \<Rightarrow> Client \<Rightarrow> string \<Rightarrow> string \<Rightarrow> 'a iface \<Rightarrow> (error + http_request) outcome" where
  "newRequest lib c method path body =
     (case request_parts lib c method path body of
        Panics \<Rightarrow> Panics
      | Returns (Inl err) \<Rightarrow> Returns (Inl err)
      | Returns (Inr (reqURL, reqBodyBytes)) \<Rightarrow>
          (case http_NewRequest lib method reqURL reqBodyBytes of
             Inl err \<Rightarrow> Returns (Inl err)
           | Inr req \<Rightarrow> Returns (Inr (set_headers c req))))"

section \<open>Sending a request (client.go 119-147)\<close>

text \<open>
  \<^verbatim>\<open>do\<close> returns the response wrapper (\<open>None\<close> for nil), the error, and the
  decode target \<^verbatim>\<open>v\<close> as the call leaves it. The wrapper holds the pointer to the
  response, so it shows the response as \<^verbatim>\<open>checkResponse\<close> and the decoder left it.
  The \<^verbatim>\<open>select\<close> with a \<^verbatim>\<open>default\<close> branch takes the context's branch exactly
  when the \<^verbatim>\<open>Done\<close> channel is closed at that moment. Closing the body (line 135)
  changes no value that is returned.
\<close>

definition do ::
  "('a, 't) stdlib \<Rightarrow> Client \<Rightarrow> Context \<Rightarrow> http_request \<Rightarrow> 't option \<Rightarrow>
     (http_response option \<times> error option) \<times> 't option" where
  "do lib c ctx req v =
     (case client c (req\<lparr>ReqCtx := ctx\<rparr>) of
        Inl err \<Rightarrow>
          if Done ctx then ((None, map_option Failure (Err ctx)), v)
          else ((None, Some err), v)
      | Inr resp \<Rightarrow>
          (case checkResponse lib resp of
             (Some err, resp') \<Rightarrow> ((Some resp', Some err), v)
           | (None, resp') \<Rightarrow>
               (case v of
                  None \<Rightarrow> ((Some resp', None), None)
                | Some target \<Rightarrow>
                    (case json_Decode lib (Body resp') target of
                       (Some err, target', body') \<Rightarrow> ((None, Some err), Some target')
                     | (None, target', body') \<Rightarrow>
                         ((Some (resp'\<lparr>Body := body'\<rparr>), None), Some target')))))"

section \<open>Page tokens (meta.go 20-95)\<close>

text \<open>\<^verbatim>\<open>Links\<close>; the methods take a pointer, \<open>None\<close> when it is nil.\<close>

record Links =
  First :: string
  Last :: string
  Prev :: string
  Next :: string

definition pageTokenFromURL :: "('a, 't) stdlib \<Rightarrow> string \<Rightarrow> string \<times> error option" where
  "pageTokenFromURL lib urlText =
     (case url_ParseRequestURI lib urlText of
        Inl err \<Rightarrow> ([], Some err)
      | Inr u \<Rightarrow> (Values_Get (URL_Query lib u) ''page_token'', None))"

definition nextPageToken :: "('a, 't) stdlib \<Rightarrow> Links option \<Rightarrow> string \<times> error option" where
  "nextPageToken lib l =
     (case l of
        None \<Rightarrow> ([], None)
      | Some links \<Rightarrow>
          if Next links = [] then ([], None)
          else (case pageTokenFromURL lib (Next links) of
                  (token, Some err) \<Rightarrow> ([], Some err)
                | (token, None) \<Rightarrow> (token, None)))"

definition prevPageToken :: "('a, 't) stdlib \<Rightarrow> Links option \<Rightarrow> string \<times> error option" where
  "prevPageToken lib l =
     (case l of
        None \<Rightarrow> ([], None)
      | Some links \<Rightarrow>
          if Prev links = [] then ([], None)
          else (case pageTokenFromURL lib (Prev links) of
                  (token, Some err) \<Rightarrow> ([], Some err)
                | (token, None) \<Rightarrow> (token, None)))"

definition NextPageToken :: "('a, 't) stdlib \<Rightarrow> Links option \<Rightarrow> string \<times> error option" where
  "NextPageToken lib l = nextPageToken lib l"

definition PrevPageToken :: "('a, 't) stdlib \<Rightarrow> Links option \<Rightarrow> string \<times> error option" where
  "PrevPageToken lib l = prevPageToken lib l"

section \<open>Sample values\<close>

text \<open>
  Concrete values on which the functions above are evaluated. The library record is
  filled with tables that give the packages' results on the inputs used in the
  examples and a refusal everywhere else (\<open>fmt_q\<close> quotes a string that needs no
  escape); the general theorems do not depend on them.
\<close>

text \<open>
  Modelled from the spec: the options struct of the subscriber list call and its
  \<^verbatim>\<open>Filter\<close> (declared in \<^verbatim>\<open>subscriber.go\<close>, which is not among the sources),
  and what \<^verbatim>\<open>query.Values\<close> makes of them. A filter that is present is encoded
  under the two keys \<^verbatim>\<open>Filter[Name]\<close> and \<^verbatim>\<open>Filter[Value]\<close>; a nil filter
  pointer is encoded as the key \<^verbatim>\<open>Filter\<close> with an empty value, which is the key
  line 206 skips. The other fields are left at zero and omitted.
\<close>

record Filter =
  Name :: string
  Value :: string

datatype ListSubscriberOptions = ListSubscriberOptions "Filter option"

fun sample_query_Values :: "ListSubscriberOptions \<Rightarrow> error + (string \<times> string list) list" where
  "sample_query_Values (ListSubscriberOptions None) = Inr [(''Filter'', [[]])]"
| "sample_query_Values (ListSubscriberOptions (Some f)) =
     Inr [(''Filter[Name]'', [Name f]), (''Filter[Value]'', [Value f])]"

definition subscribers_URL :: URL where
  "subscribers_URL =
     \<lparr>Scheme = ''https'', Host = ''connect.mailerlite.com'', Path = ''/api/subscribers'',
      RawQuery = [], Fragment = []\<rparr>"

definition sample_Parse :: "string \<Rightarrow> error + URL" where
  \<open>sample_Parse s =
     (if s = ''https://connect.mailerlite.com/api/subscribers'' then Inr subscribers_URL
      else if s = ''https://connect.mailerlite.com/api/subscribers?Filter=x''
        then Inr (subscribers_URL\<lparr>RawQuery := ''Filter=x''\<rparr>)
      else if s = ''https://connect.mailerlite.com/api/subscribers?filter%5Bstatus%5D=old''
        then Inr (subscribers_URL\<lparr>RawQuery := ''filter%5Bstatus%5D=old''\<rparr>)
      else if s = ''https://connect.mailerlite.com/api/subscribers?page=2&page_token=abc''
        then Inr (subscribers_URL\<lparr>RawQuery := ''page=2&page_token=abc''\<rparr>)
      else if s = ''https://connect.mailerlite.com/api/subscribers/%zz''
        then Inl (Failure ''parse "https://connect.mailerlite.com/api/subscribers/%zz": invalid URL escape "%zz"'')
      else if s = '':'' then Inl (Failure ''parse ":": missing protocol scheme'')
      else Inl (Failure ''parse: refused''))\<close>

definition sample_Query :: "URL \<Rightarrow> Values" where
  "sample_Query u =
     (if RawQuery u = ''Filter=x'' then [''Filter'' \<mapsto> [''x'']]
      else if RawQuery u = ''filter%5Bstatus%5D=old'' then [''filter[status]'' \<mapsto> [''old'']]
      else if RawQuery u = ''page=2&page_token=abc''
        then [''page'' \<mapsto> [''2''], ''page_token'' \<mapsto> [''abc'']]
      else Map.empty)"

definition sample_String :: "URL \<Rightarrow> string" where
  "sample_String u =
     Scheme u @ ''://'' @ Host u @ Path u @
     (if RawQuery u = [] then [] else ''?'' @ RawQuery u) @
     (if Fragment u = [] then [] else ''#'' @ Fragment u)"

text \<open>
  \<^verbatim>\<open>Values.Encode\<close> on the keys of the examples, in sorted order, each key with
  its escaped form; the values of the examples need no escaping.
\<close>

fun encode_key :: "string \<times> string \<Rightarrow> Values \<Rightarrow> string list" where
  "encode_key (k, escaped) v =
     (case v k of None \<Rightarrow> [] | Some vs \<Rightarrow> map (\<lambda>x. escaped @ ''='' @ x) vs)"

fun join_amp :: "string list \<Rightarrow> string" where
  "join_amp [] = []"
| "join_amp [x] = x"
| "join_amp (x # y # ys) = x @ ''&'' @ join_amp (y # ys)"

definition sample_Encode :: "Values \<Rightarrow> string" where
  "sample_Encode v =
     join_amp (concat (map (\<lambda>k. encode_key k v)
       [(''Filter'', ''Filter''), (''filter[status]'', ''filter%5Bstatus%5D''),
        (''page'', ''page''), (''page_token'', ''page_token'')]))"

text \<open>
  \<^verbatim>\<open>json.Unmarshal\<close> into the error record: on an object with a message; on
  two objects whose key \<^verbatim>\<open>Response\<close> matches the untagged field of that name, so
  that the decoder descends through the pointer and stores the number in the
  response's \<^verbatim>\<open>StatusCode\<close>; and on anything else, refused as a syntax error (as
  \<^verbatim>\<open>oops\<close> is).
\<close>

definition sample_Unmarshal :: "string \<Rightarrow> ErrorResponse \<Rightarrow> ErrorResponse \<times> error option" where
  \<open>sample_Unmarshal data e =
     (if data = ''{"message": "Unauthenticated."}'' then (e\<lparr>Message := ''Unauthenticated.''\<rparr>, None)
      else if data = ''{"Response":{"StatusCode":500}}''
        then (e\<lparr>Response := map_option (\<lambda>r. r\<lparr>StatusCode := 500\<rparr>) (Response e)\<rparr>, None)
      else if data = ''{"Response":{"StatusCode":200}}''
        then (e\<lparr>Response := map_option (\<lambda>r. r\<lparr>StatusCode := 200\<rparr>) (Response e)\<rparr>, None)
      else (e, Some (Failure ''invalid character'')))\<close>

definition sample_lib ::
  "('a \<Rightarrow> error + (string \<times> string list) list) \<Rightarrow> ('a \<Rightarrow> error + string) \<Rightarrow> ('a, 't) stdlib" where
  "sample_lib qv jm =
     \<lparr>url_Parse = sample_Parse, url_ParseRequestURI = sample_Parse,
      URL_Query = sample_Query, URL_String = sample_String, Values_Encode = sample_Encode,
      query_Values = qv, json_Marshal = jm, json_Unmarshal = sample_Unmarshal,
      json_Decode = (\<lambda>rd target. (Some (Failure ''json: refused''), target, rd)),
      validMethod = (\<lambda>m. m \<in> set [''GET'', ''POST'', ''PUT'', ''DELETE'']),
      fmt_q = (\<lambda>m. [CHR 0x22] @ m @ [CHR 0x22])\<rparr>"

text \<open>
  The library for calls whose options are a \<^verbatim>\<open>ListSubscriberOptions\<close> (no
  example marshals one, and none decodes a response), and the library for calls whose
  payload is a Go \<^verbatim>\<open>int\<close>, which \<^verbatim>\<open>query.Values\<close> refuses for not being a
  struct.
\<close>

definition options_lib :: "(ListSubscriberOptions, unit) stdlib" where
  "options_lib = sample_lib sample_query_Values (\<lambda>x. Inl (Failure ''json: refused''))"

definition int_lib :: "(int, unit) stdlib" where
  "int_lib =
     sample_lib (\<lambda>i. Inl (Failure ''query: Values() expects struct input. Got int''))
       (\<lambda>i. Inr (fmt_d i))"

definition sample_request :: http_request where
  "sample_request =
     \<lparr>Method = ''GET'', ReqURL = Some subscribers_URL, Header = Map.empty, ReqBody = [],
      ReqCtx = Background\<rparr>"

definition sample_response :: "int \<Rightarrow> string \<Rightarrow> http_response" where
  "sample_response status body =
     \<lparr>StatusCode = status, Body = \<lparr>pending = body, fault = None\<rparr>,
      Request = Some sample_request\<rparr>"

definition sample_links :: Links where
  "sample_links =
     \<lparr>First = [], Last = [], Prev = [],
      Next = ''https://connect.mailerlite.com/api/subscribers?page=2&page_token=abc''\<rparr>"

definition sample_client :: Client where
  "sample_client =
     \<lparr>apiBase = ''https://connect.mailerlite.com/api'', apiKey = ''valid-api-key'',
      client = (\<lambda>req. Inl (Failure ''dial tcp: connection refused''))\<rparr>"

section \<open>Lemmas\<close>

subsection \<open>The sample library\<close>

lemma lib_simps:
  "url_Parse (sample_lib qv jm) = sample_Parse"
  "url_ParseRequestURI (sample_lib qv jm) = sample_Parse"
  "URL_Query (sample_lib qv jm) = sample_Query"
  "URL_String (sample_lib qv jm) = sample_String"
  "Values_Encode (sample_lib qv jm) = sample_Encode"
  "query_Values (sample_lib qv jm) = qv"
  "json_Marshal (sample_lib qv jm) = jm"
  "json_Unmarshal (sample_lib qv jm) = sample_Unmarshal"
  "validMethod (sample_lib qv jm) m = (m \<in> set [''GET'', ''POST'', ''PUT'', ''DELETE''])"
  by (simp_all add: sample_lib_def)

subsection \<open>The loop over the encoded options\<close>

text \<open>
  The loop in closed form. A Go map has each key once, and the two intercepted keys
  must not carry an empty slice (the loop would panic on \<^verbatim>\<open>v[0]\<close>).
\<close>

lemma options_loop_closed_form:
  assumes "distinct (map fst nv)"
      and "\<forall>v. (''Filter[Name]'', v) \<in> set nv \<or> (''Filter[Value]'', v) \<in> set nv \<longrightarrow> v \<noteq> []"
  shows "options_loop nv (fk, fv, orig) =
     Returns
       (case map_of nv ''Filter[Name]'' of None \<Rightarrow> fk | Some v \<Rightarrow> ''filter['' @ hd v @ '']'',
        case map_of nv ''Filter[Value]'' of None \<Rightarrow> fv | Some v \<Rightarrow> hd v,
        \<lambda>k. if raw_key k then orig k
            else (case map_of nv k of None \<Rightarrow> orig k | Some v \<Rightarrow> Some v))"
  using assms
proof (induction nv arbitrary: fk fv orig)
  case Nil
  show ?case by (simp add: fun_eq_iff)
next
  case (Cons kv rest)
  obtain k v where kv: "kv = (k, v)" by (cases kv)
  have d: "distinct (map fst rest)" and nk: "k \<notin> fst ` set rest"
    using Cons.prems(1) by (simp_all add: kv)
  have ne: "\<forall>v. (''Filter[Name]'', v) \<in> set rest \<or> (''Filter[Value]'', v) \<in> set rest \<longrightarrow> v \<noteq> []"
    using Cons.prems(2) by auto
  have none: "map_of rest k = None"
    using nk by (simp add: map_of_eq_None_iff)
  note IH = Cons.IH [OF d ne]
  show ?case
  proof (cases "k = ''Filter''")
    case True
    then show ?thesis using IH none by (auto simp: kv raw_key_def fun_eq_iff)
  next
    case nF: False
    show ?thesis
    proof (cases "k = ''Filter[Name]''")
      case True
      then obtain v0 vs where v: "v = v0 # vs" using Cons.prems(2) by (cases v) (auto simp: kv)
      show ?thesis using True IH none by (auto simp: kv v raw_key_def fun_eq_iff)
    next
      case nN: False
      show ?thesis
      proof (cases "k = ''Filter[Value]''")
        case True
        then obtain v0 vs where v: "v = v0 # vs" using Cons.prems(2) by (cases v) (auto simp: kv)
        show ?thesis using True IH none by (auto simp: kv v raw_key_def fun_eq_iff)
      next
        case False
        then show ?thesis using nF nN IH none
          by (auto simp: kv raw_key_def fun_eq_iff split: option.splits)
      qed
    qed
  qed
qed

lemma filter_name_not_raw: "\<not> raw_key (''filter['' @ N @ '']'')"
  by (simp add: raw_key_def)

lemma filter_key_not_raw: "filter_key k \<Longrightarrow> \<not> raw_key k"
  by (auto simp: raw_key_def filter_key_def)

lemma mergeOptions_closed_form:
  assumes "distinct (map fst nv)"
      and "\<forall>v. (''Filter[Name]'', v) \<in> set nv \<or> (''Filter[Value]'', v) \<in> set nv \<longrightarrow> v \<noteq> []"
  shows "mergeOptions orig nv =
     Returns
       (let merged = (\<lambda>k. if raw_key k then orig k
                          else (case map_of nv k of None \<Rightarrow> orig k | Some v \<Rightarrow> Some v))
        in case map_of nv ''Filter[Name]'' of
             None \<Rightarrow> merged
           | Some n \<Rightarrow>
               Values_Add (''filter['' @ hd n @ '']'')
                 (case map_of nv ''Filter[Value]'' of None \<Rightarrow> [] | Some v \<Rightarrow> hd v) merged)"
  by (simp add: mergeOptions_def options_loop_closed_form [OF assms] Let_def split: option.split)

text \<open>
  Go visits the keys of a map in no fixed order; the result of lines 202-222 is the
  same for every order.
\<close>

lemma mergeOptions_order_independent:
  assumes "distinct (map fst nv)" and "distinct (map fst nv')" and "set nv = set nv'"
      and "\<forall>v. (''Filter[Name]'', v) \<in> set nv \<or> (''Filter[Value]'', v) \<in> set nv \<longrightarrow> v \<noteq> []"
  shows "mergeOptions orig nv = mergeOptions orig nv'"
proof -
  have m: "map_of nv = map_of nv'"
    using assms(1-3) by (simp add: map_of_inject_set)
  have ne': "\<forall>v. (''Filter[Name]'', v) \<in> set nv' \<or> (''Filter[Value]'', v) \<in> set nv' \<longrightarrow> v \<noteq> []"
    using assms(3,4) by simp
  show ?thesis
    by (simp only: mergeOptions_closed_form [OF assms(1,4)] mergeOptions_closed_form [OF assms(2) ne'] m)
qed

lemma addOptions_merge:
  assumes "opt \<noteq> NilPointer"
      and "url_Parse lib s = Inr origURL"
      and "query_Values_of lib opt = Inr newValues"
      and "mergeOptions (URL_Query lib origURL) newValues = Returns vals"
  shows "addOptions lib s opt =
           Returns (URL_String lib (origURL\<lparr>RawQuery := Values_Encode lib vals\<rparr>), None)"
  using assms by (cases opt) (simp_all add: addOptions_def)

lemma addOptions_error_keeps_URL:
  assumes "addOptions lib s opt = Returns (u', Some e)"
  shows "u' = s"
  using assms
  by (cases opt)
     (auto simp: addOptions_def split: sum.splits outcome.splits)

subsection \<open>Requests\<close>

lemma removeEmptyPort_sample: "removeEmptyPort (Host subscribers_URL) = Host subscribers_URL"
  by (simp add: removeEmptyPort_def hasPort_def strings_LastIndex_def subscribers_URL_def)

lemma removeEmptyPort_colon: "removeEmptyPort ''example.com:'' = ''example.com''"
  by (simp add: removeEmptyPort_def hasPort_def strings_LastIndex_def)

lemma set_headers_ReqBody: "ReqBody (set_headers c req) = ReqBody req"
  by (simp add: set_headers_def)

lemma http_NewRequest_ReqBody:
  "http_NewRequest lib method url body = Inr req \<Longrightarrow> ReqBody req = body"
  by (auto simp: http_NewRequest_def Let_def split: if_splits sum.splits)

lemma Values_Get_absent: "v key = None \<Longrightarrow> Values_Get v key = []"
  by (simp add: Values_Get_def)

subsection \<open>Classification\<close>

lemma readError_no_decode:
  assumes "fault (Body r) \<noteq> None \<or> pending (Body r) = []"
  shows "readError lib r =
           (\<lparr>Response = Some (r\<lparr>Body := (Body r)\<lparr>pending := []\<rparr>\<rparr>), Message = [], Errors = None\<rparr>,
            r\<lparr>Body := (Body r)\<lparr>pending := []\<rparr>\<rparr>)"
  using assms by (auto simp: readError_def ioutil_ReadAll_def Let_def)

lemma readError_decoder_leaves_Response:
  assumes "json_Unmarshal lib (pending (Body r))
             \<lparr>Response = Some (r\<lparr>Body := (Body r)\<lparr>pending := []\<rparr>\<rparr>), Message = [], Errors = None\<rparr> =
           (decoded, uerr)"
      and "Response decoded = Some (r\<lparr>Body := (Body r)\<lparr>pending := []\<rparr>\<rparr>)"
  shows "snd (readError lib r) = r\<lparr>Body := (Body r)\<lparr>pending := []\<rparr>\<rparr>"
  using assms by (simp add: readError_def ioutil_ReadAll_def Let_def)

lemma checkResponse_success:
  "StatusCode r = 202 \<or> (200 \<le> StatusCode r \<and> StatusCode r \<le> 299) \<Longrightarrow> checkResponse lib r = (None, r)"
  by (auto simp: checkResponse_def)

lemma checkResponse_failure:
  assumes "StatusCode r \<noteq> 202" and "\<not> (200 \<le> StatusCode r \<and> StatusCode r \<le> 299)"
  shows "\<exists>e. fst (checkResponse lib r) = Some e"
  using assms by (cases "readError lib r") (simp add: checkResponse_def)

text \<open>
  The variant follows the status code the response holds once the body has been
  decoded; where decoding leaves the code alone, that is the code of the response as
  it arrived.
\<close>

lemma checkResponse_variant_by_status:
  assumes "StatusCode r \<noteq> 202" and "\<not> (200 \<le> StatusCode r \<and> StatusCode r \<le> 299)"
      and "StatusCode (snd (readError lib r)) = StatusCode r"
  shows "\<exists>x. fst (checkResponse lib r) =
               Some ((if StatusCode r = 401 then AuthError else APIError) x)"
  using assms by (cases "readError lib r") (auto simp: checkResponse_def)

lemma Error_format:
  assumes "Response e = Some resp" and "Request resp = Some req"
  shows "Error lib e =
           Returns (Method req @ '' '' @ fmt_v_URL lib (ReqURL req) @ '': '' @
                    fmt_d (StatusCode resp) @ '' '' @ Message e)"
  using assms by (simp add: Error_def)

text \<open>
  The test \<^verbatim>\<open>TestWillHandleAPIAuthError\<close> (client_test.go 188-213), and a body
  that is no JSON.
\<close>

lemma checkResponse_auth_test:
  \<open>checkResponse options_lib (sample_response 401 ''{"message": "Unauthenticated."}'') =
     (Some (AuthError \<lparr>Response = Some (sample_response 401 []), Message = ''Unauthenticated.'',
                       Errors = None\<rparr>),
      sample_response 401 []) \<and>
   error_string options_lib
     (AuthError \<lparr>Response = Some (sample_response 401 []), Message = ''Unauthenticated.'',
                 Errors = None\<rparr>) =
     Returns ''GET https://connect.mailerlite.com/api/subscribers: 401 Unauthenticated.''\<close>
  by (simp add: checkResponse_def readError_def ioutil_ReadAll_def Let_def sample_response_def
      options_lib_def lib_simps sample_Unmarshal_def error_string_def Error_def fmt_v_URL_def
      sample_request_def sample_String_def subscribers_URL_def fmt_d_def
      decimal.simps [of 401] decimal.simps [of 40] decimal.simps [of 4])

lemma checkResponse_oops:
  "checkResponse options_lib (sample_response 500 ''oops'') =
     (Some (APIError \<lparr>Response = Some (sample_response 500 []), Message = ''oops'', Errors = None\<rparr>),
      sample_response 500 [])"
  by (simp add: checkResponse_def readError_def ioutil_ReadAll_def Let_def sample_response_def
      options_lib_def lib_simps sample_Unmarshal_def)

text \<open>
  A body that overwrites the status code of a 500 response with 200: the first call
  returns an error, the second call on the same response returns nil.
\<close>

lemma checkResponse_twice_after_overwrite:
  \<open>checkResponse options_lib (sample_response 500 ''{"Response":{"StatusCode":200}}'') =
     (Some (APIError \<lparr>Response = Some (sample_response 200 []), Message = [], Errors = None\<rparr>),
      sample_response 200 []) \<and>
   checkResponse options_lib (sample_response 200 []) = (None, sample_response 200 [])\<close>
  by (simp add: checkResponse_def readError_def ioutil_ReadAll_def Let_def sample_response_def
      options_lib_def lib_simps sample_Unmarshal_def)

section \<open>Classification: verdict\<close>

text \<open>
  C1. For every response, \<^verbatim>\<open>checkResponse\<close> returns nil exactly when the status
  code is 202 or lies in 200..299; for every other status code it returns an error
  that is not nil.
\<close>

theorem checkResponse_verdict:
  "(fst (checkResponse lib r) = None) =
     (StatusCode r = 202 \<or> (200 \<le> StatusCode r \<and> StatusCode r \<le> 299))"
  by (simp add: checkResponse_def split: prod.split)

theorem checkResponse_verdict_witness:
  "fst (checkResponse options_lib (sample_response 202 ''OK'')) = None \<and>
   fst (checkResponse options_lib (sample_response 200 [])) = None \<and>
   fst (checkResponse options_lib (sample_response 299 [])) = None \<and>
   fst (checkResponse options_lib (sample_response 199 [])) \<noteq> None \<and>
   fst (checkResponse options_lib (sample_response 300 [])) \<noteq> None \<and>
   fst (checkResponse options_lib (sample_response 404 [])) \<noteq> None"
  using checkResponse_verdict [of options_lib "sample_response 202 ''OK''"]
    checkResponse_verdict [of options_lib "sample_response 200 []"]
    checkResponse_verdict [of options_lib "sample_response 299 []"]
    checkResponse_verdict [of options_lib "sample_response 199 []"]
    checkResponse_verdict [of options_lib "sample_response 300 []"]
    checkResponse_verdict [of options_lib "sample_response 404 []"]
  by (simp add: sample_response_def)

section \<open>Classification: variant and string form\<close>

text \<open>
  C2. For every failing response the classifier is to return the authentication
  variant exactly when the status code is 401, and the error's string form is to be
  \<^verbatim>\<open><METHOD> <URL>: <status-code> <message>\<close>. The code reads the status code
  for the variant (line 176) after the body has been decoded into the error record
  (line 169), and the record's \<^verbatim>\<open>Response\<close> field is open to the decoder. A 401
  response whose body is the JSON object with \<^verbatim>\<open>Response.StatusCode\<close> set to 500
  comes out as the generic variant, and its string form shows 500.
\<close>

theorem checkResponse_401_status_overwritten:
  \<open>checkResponse options_lib (sample_response 401 ''{"Response":{"StatusCode":500}}'') =
     (Some (APIError \<lparr>Response = Some (sample_response 500 []), Message = [], Errors = None\<rparr>),
      sample_response 500 []) \<and>
   error_string options_lib
     (APIError \<lparr>Response = Some (sample_response 500 []), Message = [], Errors = None\<rparr>) =
     Returns ''GET https://connect.mailerlite.com/api/subscribers: 500 ''\<close>
  by (simp add: checkResponse_def readError_def ioutil_ReadAll_def Let_def sample_response_def
      options_lib_def lib_simps sample_Unmarshal_def error_string_def Error_def fmt_v_URL_def
      sample_request_def sample_String_def subscribers_URL_def fmt_d_def
      decimal.simps [of 500] decimal.simps [of 50] decimal.simps [of 5])

section \<open>Query options: the filter parameter\<close>

text \<open>
  C3, as amended. The claim: for every options value with a filter of name \<open>N\<close>
  and value \<open>V\<close> the output query has exactly one key \<^verbatim>\<open>filter[N]\<close>, with value
  \<open>V\<close>, and none of the raw keys \<^verbatim>\<open>Filter\<close>, \<^verbatim>\<open>Filter[Name]\<close>,
  \<^verbatim>\<open>Filter[Value]\<close>; with no filter the output has no \<^verbatim>\<open>filter[...]\<close> key.
  What holds, with \<open>vals\<close> the map whose encoding becomes the query string of the
  output:

  With a filter, \<open>V\<close> is appended (line 221) to the values the key
  \<^verbatim>\<open>filter[N]\<close> has after the merge, which are those of an option field encoded
  under that key, else those of the base URL's query; so the key has the single value
  \<open>V\<close> when neither has it. The raw keys of the encoded options are never copied: a
  raw key has in the output what the base URL's query has for it. Every other key
  has the option's values where an option is encoded under it, and the base URL's
  values otherwise.

  With no filter, the output is the base URL's query overwritten by the options
  other than the raw keys; it has a \<^verbatim>\<open>filter[...]\<close> key only where the base
  URL's query or an option field has one.
\<close>

theorem addOptions_filter_parameter:
  assumes "opt \<noteq> NilPointer"
      and "url_Parse lib s = Inr origURL"
      and "query_Values_of lib opt = Inr newValues"
      and "distinct (map fst newValues)"
  shows
    "(map_of newValues ''Filter[Name]'' = Some [N] \<and> map_of newValues ''Filter[Value]'' = Some [V]
      \<longrightarrow> (\<exists>vals. addOptions lib s opt =
                    Returns (URL_String lib (origURL\<lparr>RawQuery := Values_Encode lib vals\<rparr>), None) \<and>
                  vals (''filter['' @ N @ '']'') =
                    Some ((case map_of newValues (''filter['' @ N @ '']'') of
                             Some v \<Rightarrow> v
                           | None \<Rightarrow>
                               (case URL_Query lib origURL (''filter['' @ N @ '']'') of
                                  Some v \<Rightarrow> v
                                | None \<Rightarrow> [])) @ [V]) \<and>
                  (URL_Query lib origURL (''filter['' @ N @ '']'') = None \<and>
                   map_of newValues (''filter['' @ N @ '']'') = None
                   \<longrightarrow> vals (''filter['' @ N @ '']'') = Some [V]) \<and>
                  (\<forall>k. raw_key k \<longrightarrow> vals k = URL_Query lib origURL k) \<and>
                  (\<forall>k. \<not> raw_key k \<and> k \<noteq> ''filter['' @ N @ '']'' \<longrightarrow>
                       vals k = (case map_of newValues k of
                                   Some v \<Rightarrow> Some v
                                 | None \<Rightarrow> URL_Query lib origURL k)))) \<and>
     (map_of newValues ''Filter[Name]'' = None \<and> map_of newValues ''Filter[Value]'' = None
      \<longrightarrow> (\<exists>vals. addOptions lib s opt =
                    Returns (URL_String lib (origURL\<lparr>RawQuery := Values_Encode lib vals\<rparr>), None) \<and>
                  (\<forall>k. raw_key k \<longrightarrow> vals k = URL_Query lib origURL k) \<and>
                  (\<forall>k. \<not> raw_key k \<longrightarrow>
                       vals k = (case map_of newValues k of
                                   Some v \<Rightarrow> Some v
                                 | None \<Rightarrow> URL_Query lib origURL k)) \<and>
                  (\<forall>k. filter_key k \<and> URL_Query lib origURL k = None \<and> map_of newValues k = None
                       \<longrightarrow> vals k = None)))"
proof (intro conjI impI)
  let ?orig = "URL_Query lib origURL"
  let ?fk = "''filter['' @ N @ '']''"
  assume h: "map_of newValues ''Filter[Name]'' = Some [N] \<and> map_of newValues ''Filter[Value]'' = Some [V]"
  have ne: "\<forall>v. (''Filter[Name]'', v) \<in> set newValues \<or> (''Filter[Value]'', v) \<in> set newValues \<longrightarrow> v \<noteq> []"
  proof (intro allI impI)
    fix v
    assume "(''Filter[Name]'', v) \<in> set newValues \<or> (''Filter[Value]'', v) \<in> set newValues"
    then have "map_of newValues ''Filter[Name]'' = Some v \<or> map_of newValues ''Filter[Value]'' = Some v"
      using assms(4) by (auto intro: map_of_is_SomeI)
    then show "v \<noteq> []" using h by auto
  qed
  define merged where "merged = (\<lambda>k. if raw_key k then ?orig k
     else (case map_of newValues k of None \<Rightarrow> ?orig k | Some v \<Rightarrow> Some v))"
  have m: "mergeOptions ?orig newValues = Returns (Values_Add ?fk V merged)"
    using h by (simp add: mergeOptions_closed_form [OF assms(4) ne] merged_def)
  have nr: "\<not> raw_key ?fk"
    using filter_name_not_raw [of N] .
  have fk: "Values_Add ?fk V merged ?fk =
      Some ((case map_of newValues ?fk of
               Some v \<Rightarrow> v
             | None \<Rightarrow> (case ?orig ?fk of Some v \<Rightarrow> v | None \<Rightarrow> [])) @ [V])"
    using nr by (simp add: Values_Add_def merged_def split: option.split)
  have single: "?orig ?fk = None \<and> map_of newValues ?fk = None \<longrightarrow>
      Values_Add ?fk V merged ?fk = Some [V]"
    using fk by simp
  have raw: "\<forall>k. raw_key k \<longrightarrow> Values_Add ?fk V merged k = ?orig k"
  proof (intro allI impI)
    fix k assume r: "raw_key k"
    then have "k \<noteq> ?fk" using nr by auto
    then show "Values_Add ?fk V merged k = ?orig k"
      using r by (simp add: Values_Add_def merged_def)
  qed
  have rest: "\<forall>k. \<not> raw_key k \<and> k \<noteq> ?fk \<longrightarrow>
      Values_Add ?fk V merged k =
        (case map_of newValues k of Some v \<Rightarrow> Some v | None \<Rightarrow> ?orig k)"
    by (simp add: Values_Add_def merged_def split: option.split)
  from fk single raw rest
  show "\<exists>vals. addOptions lib s opt =
        Returns (URL_String lib (origURL\<lparr>RawQuery := Values_Encode lib vals\<rparr>), None) \<and>
      vals ?fk =
        Some ((case map_of newValues ?fk of
                 Some v \<Rightarrow> v
               | None \<Rightarrow> (case ?orig ?fk of Some v \<Rightarrow> v | None \<Rightarrow> [])) @ [V]) \<and>
      (?orig ?fk = None \<and> map_of newValues ?fk = None \<longrightarrow> vals ?fk = Some [V]) \<and>
      (\<forall>k. raw_key k \<longrightarrow> vals k = ?orig k) \<and>
      (\<forall>k. \<not> raw_key k \<and> k \<noteq> ?fk \<longrightarrow>
           vals k = (case map_of newValues k of Some v \<Rightarrow> Some v | None \<Rightarrow> ?orig k))"
    using addOptions_merge [OF assms(1-3) m] by blast
next
  let ?orig = "URL_Query lib origURL"
  assume h: "map_of newValues ''Filter[Name]'' = None \<and> map_of newValues ''Filter[Value]'' = None"
  have ne: "\<forall>v. (''Filter[Name]'', v) \<in> set newValues \<or> (''Filter[Value]'', v) \<in> set newValues \<longrightarrow> v \<noteq> []"
    using h by (auto simp: map_of_eq_None_iff image_iff)
  define merged where "merged = (\<lambda>k. if raw_key k then ?orig k
     else (case map_of newValues k of None \<Rightarrow> ?orig k | Some v \<Rightarrow> Some v))"
  have m: "mergeOptions ?orig newValues = Returns merged"
    using h by (simp add: mergeOptions_closed_form [OF assms(4) ne] merged_def)
  have raw: "\<forall>k. raw_key k \<longrightarrow> merged k = ?orig k"
    by (simp add: merged_def)
  have rest: "\<forall>k. \<not> raw_key k \<longrightarrow>
      merged k = (case map_of newValues k of Some v \<Rightarrow> Some v | None \<Rightarrow> ?orig k)"
    by (simp add: merged_def split: option.split)
  have none: "\<forall>k. filter_key k \<and> ?orig k = None \<and> map_of newValues k = None \<longrightarrow> merged k = None"
    by (simp add: merged_def)
  from raw rest none
  show "\<exists>vals. addOptions lib s opt =
        Returns (URL_String lib (origURL\<lparr>RawQuery := Values_Encode lib vals\<rparr>), None) \<and>
      (\<forall>k. raw_key k \<longrightarrow> vals k = ?orig k) \<and>
      (\<forall>k. \<not> raw_key k \<longrightarrow>
           vals k = (case map_of newValues k of Some v \<Rightarrow> Some v | None \<Rightarrow> ?orig k)) \<and>
      (\<forall>k. filter_key k \<and> ?orig k = None \<and> map_of newValues k = None \<longrightarrow> vals k = None)"
    using addOptions_merge [OF assms(1-3) m] by blast
qed

theorem addOptions_filter_parameter_witness:
  "(\<exists>vals. addOptions options_lib ''https://connect.mailerlite.com/api/subscribers''
             (NonNil (ListSubscriberOptions (Some \<lparr>Name = ''status'', Value = ''active''\<rparr>))) =
           Returns (sample_String (subscribers_URL\<lparr>RawQuery := sample_Encode vals\<rparr>), None) \<and>
         vals ''filter[status]'' = Some [''active''] \<and> (\<forall>k. raw_key k \<longrightarrow> vals k = None)) \<and>
   (\<exists>vals. addOptions options_lib ''https://connect.mailerlite.com/api/subscribers''
             (NonNil (ListSubscriberOptions None)) =
           Returns (sample_String (subscribers_URL\<lparr>RawQuery := sample_Encode vals\<rparr>), None) \<and>
         (\<forall>k. filter_key k \<longrightarrow> vals k = None))"
proof -
  let ?s = "''https://connect.mailerlite.com/api/subscribers''"
  let ?with = "NonNil (ListSubscriberOptions (Some \<lparr>Name = ''status'', Value = ''active''\<rparr>))"
  let ?without = "NonNil (ListSubscriberOptions None)"
  let ?nv1 = "[(''Filter[Name]'', [''status'']), (''Filter[Value]'', [''active''])]"
  let ?nv2 = "[(''Filter'', [[] :: string])]"
  have p: "url_Parse options_lib ?s = Inr subscribers_URL"
    by (simp add: options_lib_def lib_simps sample_Parse_def)
  have q: "URL_Query options_lib subscribers_URL = Map.empty"
    by (simp add: options_lib_def lib_simps sample_Query_def subscribers_URL_def)
  have e1: "query_Values_of options_lib ?with = Inr ?nv1"
    by (simp add: query_Values_of_def options_lib_def lib_simps)
  have e2: "query_Values_of options_lib ?without = Inr ?nv2"
    by (simp add: query_Values_of_def options_lib_def lib_simps)
  have n1: "?with \<noteq> NilPointer" and n2: "?without \<noteq> NilPointer"
    by simp_all
  have d1: "distinct (map fst ?nv1)" and d2: "distinct (map fst ?nv2)"
    by simp_all
  have t1: "map_of ?nv1 ''Filter[Name]'' = Some [''status''] \<and>
            map_of ?nv1 ''Filter[Value]'' = Some [''active'']"
    by simp
  have t2: "map_of ?nv2 ''Filter[Name]'' = None \<and> map_of ?nv2 ''Filter[Value]'' = None"
    by simp
  have l: "URL_String options_lib = sample_String" "Values_Encode options_lib = sample_Encode"
    by (simp_all add: options_lib_def lib_simps)
  note c1 = addOptions_filter_parameter
      [OF n1 p e1 d1, of "''status''" "''active''", THEN conjunct1, THEN mp, OF t1]
  then obtain vals where
    r: "addOptions options_lib ?s ?with =
          Returns (URL_String options_lib
                     (subscribers_URL\<lparr>RawQuery := Values_Encode options_lib vals\<rparr>), None)" and
    single: "URL_Query options_lib subscribers_URL (''filter['' @ ''status'' @ '']'') = None \<and>
             map_of ?nv1 (''filter['' @ ''status'' @ '']'') = None \<longrightarrow>
             vals (''filter['' @ ''status'' @ '']'') = Some [''active'']" and
    raw: "\<forall>k. raw_key k \<longrightarrow> vals k = URL_Query options_lib subscribers_URL k"
    by (elim exE conjE) (rule that, assumption+)
  have a1: "addOptions options_lib ?s ?with =
      Returns (sample_String (subscribers_URL\<lparr>RawQuery := sample_Encode vals\<rparr>), None)"
    using r by (simp only: l)
  have a2: "vals ''filter[status]'' = Some [''active'']"
    using single by (simp add: q)
  have a3: "\<forall>k. raw_key k \<longrightarrow> vals k = None"
    using raw by (simp add: q)
  note c2 = addOptions_filter_parameter
      [OF n2 p e2 d2, of "''status''" "''active''", THEN conjunct2, THEN mp, OF t2]
  then obtain vals' where
    r': "addOptions options_lib ?s ?without =
          Returns (URL_String options_lib
                     (subscribers_URL\<lparr>RawQuery := Values_Encode options_lib vals'\<rparr>), None)" and
    fk: "\<forall>k. filter_key k \<and> URL_Query options_lib subscribers_URL k = None \<and>
             map_of ?nv2 k = None \<longrightarrow> vals' k = None"
    by (elim exE conjE) (rule that, assumption+)
  have b1: "addOptions options_lib ?s ?without =
      Returns (sample_String (subscribers_URL\<lparr>RawQuery := sample_Encode vals'\<rparr>), None)"
    using r' by (simp only: l)
  have b2: "\<forall>k. filter_key k \<longrightarrow> vals' k = None"
  proof (intro allI impI)
    fix k assume k: "filter_key k"
    then have "k \<noteq> ''Filter''" by (auto simp: filter_key_def)
    then have "map_of ?nv2 k = None" by simp
    with k fk show "vals' k = None" by (simp add: q)
  qed
  from a1 a2 a3 have A: "\<exists>vals. addOptions options_lib ?s ?with =
           Returns (sample_String (subscribers_URL\<lparr>RawQuery := sample_Encode vals\<rparr>), None) \<and>
         vals ''filter[status]'' = Some [''active''] \<and> (\<forall>k. raw_key k \<longrightarrow> vals k = None)"
    by (intro exI conjI)
  from b1 b2 have B: "\<exists>vals. addOptions options_lib ?s ?without =
           Returns (sample_String (subscribers_URL\<lparr>RawQuery := sample_Encode vals\<rparr>), None) \<and>
         (\<forall>k. filter_key k \<longrightarrow> vals k = None)"
    by (intro exI conjI)
  from A B show ?thesis by (rule conjI)
qed

text \<open>
  The claim as stated fails on a base URL whose query already has the key
  \<^verbatim>\<open>filter[status]\<close>: with a filter of that name the output has the key twice,
  with the old value and with the new one.
\<close>

theorem addOptions_filter_key_twice_counterexample:
  "addOptions options_lib ''https://connect.mailerlite.com/api/subscribers?filter%5Bstatus%5D=old''
     (NonNil (ListSubscriberOptions (Some \<lparr>Name = ''status'', Value = ''active''\<rparr>))) =
   Returns (''https://connect.mailerlite.com/api/subscribers?filter%5Bstatus%5D=old&filter%5Bstatus%5D=active'',
            None) \<and>
   (case mergeOptions [''filter[status]'' \<mapsto> [''old'']]
           [(''Filter[Name]'', [''status'']), (''Filter[Value]'', [''active''])] of
      Panics \<Rightarrow> None
    | Returns vals \<Rightarrow> vals ''filter[status]'') = Some [''old'', ''active'']"
  by (simp add: addOptions_def options_lib_def lib_simps sample_Parse_def query_Values_of_def
      sample_Query_def subscribers_URL_def mergeOptions_def Values_Add_def sample_String_def
      sample_Encode_def)

text \<open>
  A raw key that the base URL's own query has is the caller's and stays; a key of the
  base URL's query that no option names stays as well.
\<close>

lemma addOptions_keeps_base_query:
  "addOptions options_lib ''https://connect.mailerlite.com/api/subscribers?Filter=x''
     (NonNil (ListSubscriberOptions (Some \<lparr>Name = ''status'', Value = ''active''\<rparr>))) =
   Returns (''https://connect.mailerlite.com/api/subscribers?Filter=x&filter%5Bstatus%5D=active'', None) \<and>
   addOptions options_lib ''https://connect.mailerlite.com/api/subscribers?page=2&page_token=abc''
     (NonNil (ListSubscriberOptions (Some \<lparr>Name = ''status'', Value = ''active''\<rparr>))) =
   Returns (''https://connect.mailerlite.com/api/subscribers?filter%5Bstatus%5D=active&page=2&page_token=abc'',
            None)"
  by (simp add: addOptions_def options_lib_def lib_simps sample_Parse_def query_Values_of_def
      sample_Query_def subscribers_URL_def mergeOptions_def Values_Add_def sample_String_def
      sample_Encode_def)

section \<open>Sending: transport errors\<close>

text \<open>
  C4. When the transport returns an error, \<^verbatim>\<open>do\<close> returns a nil response, and
  the error is the context's error if the context is done and the transport's error
  otherwise.
\<close>

theorem do_transport_error:
  assumes "client c (req\<lparr>ReqCtx := ctx\<rparr>) = Inl err"
  shows "fst (do lib c ctx req v) =
           (None, if Done ctx then map_option Failure (Err ctx) else Some err)"
  using assms by (simp add: do_def)

theorem do_transport_error_witness:
  "fst (do options_lib sample_client \<lparr>Done = True, Err = Some ''context canceled''\<rparr> sample_request None) =
     (None, Some (Failure ''context canceled'')) \<and>
   fst (do options_lib sample_client Background sample_request None) =
     (None, Some (Failure ''dial tcp: connection refused''))"
  using do_transport_error [where c = sample_client and req = sample_request
      and ctx = "\<lparr>Done = True, Err = Some ''context canceled''\<rparr>"
      and err = "Failure ''dial tcp: connection refused''" and lib = options_lib and v = None]
    do_transport_error [where c = sample_client and req = sample_request and ctx = Background
      and err = "Failure ''dial tcp: connection refused''" and lib = options_lib and v = None]
  by (simp add: sample_client_def Background_def)

section \<open>Building a GET request: the encoder's error\<close>

text \<open>
  C5. For every GET request, a failure of \<^verbatim>\<open>addOptions\<close> does not abort the
  request and does not surface: \<^verbatim>\<open>newRequest\<close> drops the error (line 103), and
  the URL it goes on with is the unmodified base and path. So the result is that of
  \<^verbatim>\<open>http.NewRequest\<close> on the unmodified URL with an empty body, which is also the
  result of the same call with nil-pointer options, where \<^verbatim>\<open>addOptions\<close> does
  nothing; and whenever that URL parses, the request is built.
\<close>

theorem newRequest_GET_addOptions_error:
  assumes "addOptions lib (apiBase c @ path) body = Returns (u', Some e)"
  shows "u' = apiBase c @ path \<and>
         newRequest lib c ''GET'' path body =
           (case http_NewRequest lib ''GET'' (apiBase c @ path) [] of
              Inl err \<Rightarrow> Returns (Inl err)
            | Inr req \<Rightarrow> Returns (Inr (set_headers c req))) \<and>
         newRequest lib c ''GET'' path body = newRequest lib c ''GET'' path NilPointer \<and>
         (\<forall>u. validMethod lib ''GET'' \<and> url_Parse lib (apiBase c @ path) = Inr u \<longrightarrow>
            newRequest lib c ''GET'' path body =
              Returns (Inr (set_headers c
                \<lparr>Method = ''GET'', ReqURL = Some (u\<lparr>Host := removeEmptyPort (Host u)\<rparr>),
                 Header = Map.empty, ReqBody = [], ReqCtx = Background\<rparr>)))"
proof -
  have u: "u' = apiBase c @ path"
    using addOptions_error_keeps_URL [OF assms] .
  have parts: "request_parts lib c ''GET'' path body = Returns (Inr (apiBase c @ path, []))"
    using assms u by (simp add: request_parts_def)
  have nil_parts: "request_parts lib c ''GET'' path NilPointer = Returns (Inr (apiBase c @ path, []))"
    by (simp add: request_parts_def addOptions_def)
  have n: "newRequest lib c ''GET'' path body =
           (case http_NewRequest lib ''GET'' (apiBase c @ path) [] of
              Inl err \<Rightarrow> Returns (Inl err)
            | Inr req \<Rightarrow> Returns (Inr (set_headers c req)))"
    by (simp add: newRequest_def parts)
  have same: "newRequest lib c ''GET'' path body = newRequest lib c ''GET'' path NilPointer"
    by (simp add: newRequest_def parts nil_parts)
  have built: "\<forall>u. validMethod lib ''GET'' \<and> url_Parse lib (apiBase c @ path) = Inr u \<longrightarrow>
            newRequest lib c ''GET'' path body =
              Returns (Inr (set_headers c
                \<lparr>Method = ''GET'', ReqURL = Some (u\<lparr>Host := removeEmptyPort (Host u)\<rparr>),
                 Header = Map.empty, ReqBody = [], ReqCtx = Background\<rparr>))"
    by (simp add: n http_NewRequest_def)
  from u n same built show ?thesis by blast
qed

theorem newRequest_GET_addOptions_error_witness:
  "addOptions int_lib (apiBase sample_client @ ''/subscribers'') (NonNil 7) =
     Returns (''https://connect.mailerlite.com/api/subscribers'',
              Some (Failure ''query: Values() expects struct input. Got int'')) \<and>
   newRequest int_lib sample_client ''GET'' ''/subscribers'' (NonNil 7) =
     Returns (Inr (set_headers sample_client
       \<lparr>Method = ''GET'', ReqURL = Some subscribers_URL, Header = Map.empty, ReqBody = [],
        ReqCtx = Background\<rparr>))"
proof -
  have a: "addOptions int_lib (apiBase sample_client @ ''/subscribers'') (NonNil 7) =
     Returns (''https://connect.mailerlite.com/api/subscribers'',
              Some (Failure ''query: Values() expects struct input. Got int''))"
    by (simp add: addOptions_def int_lib_def lib_simps sample_Parse_def sample_client_def
        query_Values_of_def)
  have p: "url_Parse int_lib (apiBase sample_client @ ''/subscribers'') = Inr subscribers_URL"
    by (simp add: int_lib_def lib_simps sample_Parse_def sample_client_def)
  have m: "validMethod int_lib ''GET''"
    by (simp add: int_lib_def lib_simps)
  have h: "subscribers_URL\<lparr>Host := removeEmptyPort (Host subscribers_URL)\<rparr> = subscribers_URL"
    by (simp add: removeEmptyPort_sample)
  from newRequest_GET_addOptions_error [OF a]
  have "\<forall>u. validMethod int_lib ''GET'' \<and>
          url_Parse int_lib (apiBase sample_client @ ''/subscribers'') = Inr u \<longrightarrow>
          newRequest int_lib sample_client ''GET'' ''/subscribers'' (NonNil 7) =
            Returns (Inr (set_headers sample_client
              \<lparr>Method = ''GET'', ReqURL = Some (u\<lparr>Host := removeEmptyPort (Host u)\<rparr>),
               Header = Map.empty, ReqBody = [], ReqCtx = Background\<rparr>))"
    by blast
  with p m have "newRequest int_lib sample_client ''GET'' ''/subscribers'' (NonNil 7) =
     Returns (Inr (set_headers sample_client
       \<lparr>Method = ''GET'',
        ReqURL = Some (subscribers_URL\<lparr>Host := removeEmptyPort (Host subscribers_URL)\<rparr>),
        Header = Map.empty, ReqBody = [], ReqCtx = Background\<rparr>))"
    by blast
  then have "newRequest int_lib sample_client ''GET'' ''/subscribers'' (NonNil 7) =
     Returns (Inr (set_headers sample_client
       \<lparr>Method = ''GET'', ReqURL = Some subscribers_URL, Header = Map.empty, ReqBody = [],
        ReqCtx = Background\<rparr>))"
    by (simp only: h)
  with a show ?thesis by blast
qed

text \<open>
  A URL that does not parse is refused by \<^verbatim>\<open>http.NewRequest\<close> itself (line 106),
  whatever the options are: with options that make \<^verbatim>\<open>addOptions\<close> parse the URL
  and fail, and with a nil pointer, for which \<^verbatim>\<open>addOptions\<close> returns at once.
\<close>

lemma newRequest_GET_unparsable_URL:
  \<open>newRequest options_lib sample_client ''GET'' ''/subscribers/%zz'' (NonNil (ListSubscriberOptions None)) =
     Returns (Inl (Failure ''parse "https://connect.mailerlite.com/api/subscribers/%zz": invalid URL escape "%zz"'')) \<and>
   newRequest options_lib sample_client ''GET'' ''/subscribers/%zz'' NilPointer =
     Returns (Inl (Failure ''parse "https://connect.mailerlite.com/api/subscribers/%zz": invalid URL escape "%zz"''))\<close>
  by (simp add: newRequest_def request_parts_def http_NewRequest_def addOptions_def
      options_lib_def lib_simps sample_Parse_def sample_client_def)

section \<open>Page tokens\<close>

text \<open>
  C6. \<^verbatim>\<open>NextPageToken\<close> returns the empty token and no error when the links
  object is nil or its \<^verbatim>\<open>next\<close> is empty; otherwise it parses \<^verbatim>\<open>next\<close> and
  returns the \<^verbatim>\<open>page_token\<close> parameter of its query (empty, with no error, when
  the parameter is absent); it returns an error exactly when \<^verbatim>\<open>next\<close> is not
  empty and does not parse. \<^verbatim>\<open>PrevPageToken\<close> does the same on \<^verbatim>\<open>prev\<close>.
\<close>

theorem page_tokens:
  "(l = None \<or> (\<exists>links. l = Some links \<and> Next links = []) \<longrightarrow> NextPageToken lib l = ([], None)) \<and>
   (\<forall>links u. l = Some links \<and> Next links \<noteq> [] \<and> url_ParseRequestURI lib (Next links) = Inr u \<longrightarrow>
      NextPageToken lib l = (Values_Get (URL_Query lib u) ''page_token'', None) \<and>
      (URL_Query lib u ''page_token'' = None \<longrightarrow> NextPageToken lib l = ([], None))) \<and>
   ((snd (NextPageToken lib l) \<noteq> None) =
      (\<exists>links. l = Some links \<and> Next links \<noteq> [] \<and> isl (url_ParseRequestURI lib (Next links)))) \<and>
   (l = None \<or> (\<exists>links. l = Some links \<and> Prev links = []) \<longrightarrow> PrevPageToken lib l = ([], None)) \<and>
   (\<forall>links u. l = Some links \<and> Prev links \<noteq> [] \<and> url_ParseRequestURI lib (Prev links) = Inr u \<longrightarrow>
      PrevPageToken lib l = (Values_Get (URL_Query lib u) ''page_token'', None) \<and>
      (URL_Query lib u ''page_token'' = None \<longrightarrow> PrevPageToken lib l = ([], None))) \<and>
   ((snd (PrevPageToken lib l) \<noteq> None) =
      (\<exists>links. l = Some links \<and> Prev links \<noteq> [] \<and> isl (url_ParseRequestURI lib (Prev links))))"
proof -
  have n: "NextPageToken lib l =
      (case l of None \<Rightarrow> ([], None)
       | Some links \<Rightarrow>
           if Next links = [] then ([], None)
           else (case url_ParseRequestURI lib (Next links) of
                   Inl err \<Rightarrow> ([], Some err)
                 | Inr u \<Rightarrow> (Values_Get (URL_Query lib u) ''page_token'', None)))"
    by (simp add: NextPageToken_def nextPageToken_def pageTokenFromURL_def
        split: option.split sum.split)
  have p: "PrevPageToken lib l =
      (case l of None \<Rightarrow> ([], None)
       | Some links \<Rightarrow>
           if Prev links = [] then ([], None)
           else (case url_ParseRequestURI lib (Prev links) of
                   Inl err \<Rightarrow> ([], Some err)
                 | Inr u \<Rightarrow> (Values_Get (URL_Query lib u) ''page_token'', None)))"
    by (simp add: PrevPageToken_def prevPageToken_def pageTokenFromURL_def
        split: option.split sum.split)
  have next_part:
    "(l = None \<or> (\<exists>links. l = Some links \<and> Next links = []) \<longrightarrow> NextPageToken lib l = ([], None)) \<and>
     (\<forall>links u. l = Some links \<and> Next links \<noteq> [] \<and> url_ParseRequestURI lib (Next links) = Inr u \<longrightarrow>
        NextPageToken lib l = (Values_Get (URL_Query lib u) ''page_token'', None) \<and>
        (URL_Query lib u ''page_token'' = None \<longrightarrow> NextPageToken lib l = ([], None))) \<and>
     ((snd (NextPageToken lib l) \<noteq> None) =
        (\<exists>links. l = Some links \<and> Next links \<noteq> [] \<and> isl (url_ParseRequestURI lib (Next links))))"
    unfolding n by (auto simp: Values_Get_absent split: option.splits sum.splits)
  have prev_part:
    "(l = None \<or> (\<exists>links. l = Some links \<and> Prev links = []) \<longrightarrow> PrevPageToken lib l = ([], None)) \<and>
     (\<forall>links u. l = Some links \<and> Prev links \<noteq> [] \<and> url_ParseRequestURI lib (Prev links) = Inr u \<longrightarrow>
        PrevPageToken lib l = (Values_Get (URL_Query lib u) ''page_token'', None) \<and>
        (URL_Query lib u ''page_token'' = None \<longrightarrow> PrevPageToken lib l = ([], None))) \<and>
     ((snd (PrevPageToken lib l) \<noteq> None) =
        (\<exists>links. l = Some links \<and> Prev links \<noteq> [] \<and> isl (url_ParseRequestURI lib (Prev links))))"
    unfolding p by (auto simp: Values_Get_absent split: option.splits sum.splits)
  from next_part prev_part show ?thesis
    by (elim conjE, intro conjI) assumption+
qed

theorem page_tokens_witness:
  "NextPageToken options_lib (Some sample_links) = (''abc'', None) \<and>
   PrevPageToken options_lib (Some sample_links) = ([], None) \<and>
   NextPageToken options_lib None = ([], None) \<and>
   snd (NextPageToken options_lib (Some (sample_links\<lparr>Next := '':''\<rparr>))) \<noteq> None"
proof -
  have u: "url_ParseRequestURI options_lib (Next sample_links) =
      Inr (subscribers_URL\<lparr>RawQuery := ''page=2&page_token=abc''\<rparr>)"
    by (simp add: options_lib_def lib_simps sample_Parse_def sample_links_def)
  have q: "Values_Get (URL_Query options_lib (subscribers_URL\<lparr>RawQuery := ''page=2&page_token=abc''\<rparr>))
      ''page_token'' = ''abc''"
    by (simp add: options_lib_def lib_simps sample_Query_def Values_Get_def)
  have bad: "isl (url_ParseRequestURI options_lib '':'')"
    by (simp add: options_lib_def lib_simps sample_Parse_def)
  have a: "NextPageToken options_lib (Some sample_links) = (''abc'', None)"
    using page_tokens [of "Some sample_links" options_lib] u q
    by (simp add: sample_links_def)
  have b: "PrevPageToken options_lib (Some sample_links) = ([], None)"
    using page_tokens [of "Some sample_links" options_lib]
    by (simp add: sample_links_def)
  have c: "NextPageToken options_lib None = ([], None)"
    using page_tokens [of None options_lib] by simp
  have d: "snd (NextPageToken options_lib (Some (sample_links\<lparr>Next := '':''\<rparr>))) \<noteq> None"
    using page_tokens [of "Some (sample_links\<lparr>Next := '':''\<rparr>)" options_lib] bad
    by simp
  from a b c d show ?thesis by simp
qed

section \<open>Classification: calling twice\<close>

text \<open>
  C7, as amended. The claim: \<^verbatim>\<open>checkResponse\<close> called twice on the same response
  gives the same verdict and, on failure, an error of the same variant with the same
  message and errors payload. The body is a stream that the first call reads to its
  end, so the second call finds nothing to decode. When the first call has written
  nothing into the response but has drained its body, the second call gives the same
  verdict and the same variant, its error has an empty message and a nil errors
  payload, and it changes nothing more.
\<close>

theorem checkResponse_twice:
  assumes first: "checkResponse lib r = (e1, r1)"
      and second: "checkResponse lib r1 = (e2, r2)"
      and untouched: "e1 \<noteq> None \<longrightarrow> r1 = r\<lparr>Body := (Body r)\<lparr>pending := []\<rparr>\<rparr>"
  shows "(e1 = None) = (e2 = None) \<and>
         ((\<exists>x. e1 = Some (AuthError x)) = (\<exists>y. e2 = Some (AuthError y))) \<and>
         ((\<exists>x. e1 = Some (APIError x)) = (\<exists>y. e2 = Some (APIError y))) \<and>
         (e2 \<noteq> None \<longrightarrow>
            e2 = Some ((if StatusCode r = 401 then AuthError else APIError)
                         \<lparr>Response = Some r1, Message = [], Errors = None\<rparr>)) \<and>
         r2 = r1"
proof (cases "StatusCode r = 202 \<or> (200 \<le> StatusCode r \<and> StatusCode r \<le> 299)")
  case True
  then have "e1 = None" and "r1 = r"
    using first checkResponse_success [OF True, of lib] by simp_all
  moreover from this have "e2 = None" and "r2 = r1"
    using second checkResponse_success [OF True, of lib] by simp_all
  ultimately show ?thesis by simp
next
  case False
  then have ok: "StatusCode r \<noteq> 202" "\<not> (200 \<le> StatusCode r \<and> StatusCode r \<le> 299)"
    by auto
  have e1: "e1 \<noteq> None"
    using checkResponse_failure [OF ok, of lib] first by auto
  then have r1: "r1 = r\<lparr>Body := (Body r)\<lparr>pending := []\<rparr>\<rparr>"
    using untouched by simp
  have kind: "\<exists>x. e1 = Some ((if StatusCode r = 401 then AuthError else APIError) x)"
    using first ok r1 by (auto simp: checkResponse_def split: prod.splits if_splits)
  have st: "StatusCode r1 \<noteq> 202" "\<not> (200 \<le> StatusCode r1 \<and> StatusCode r1 \<le> 299)"
    using ok by (simp_all add: r1)
  have drained: "fault (Body r1) \<noteq> None \<or> pending (Body r1) = []"
    by (simp add: r1)
  have same: "r1\<lparr>Body := (Body r1)\<lparr>pending := []\<rparr>\<rparr> = r1"
    by (simp add: r1)
  have sc: "StatusCode r1 = StatusCode r"
    by (simp add: r1)
  have c: "checkResponse lib r1 =
      (Some ((if StatusCode r1 = 401 then AuthError else APIError)
               \<lparr>Response = Some r1, Message = [], Errors = None\<rparr>), r1)"
    using st by (simp add: checkResponse_def readError_no_decode [OF drained] same)
  note eq = trans [OF second [symmetric] c]
  from eq have r2: "r2 = r1"
    by (simp only: prod.inject)
  from eq have "e2 = Some ((if StatusCode r1 = 401 then AuthError else APIError)
               \<lparr>Response = Some r1, Message = [], Errors = None\<rparr>)"
    by (simp only: prod.inject)
  then have e2: "e2 = Some ((if StatusCode r = 401 then AuthError else APIError)
               \<lparr>Response = Some r1, Message = [], Errors = None\<rparr>)"
    by (simp only: sc)
  from e1 kind e2 r2 show ?thesis by auto
qed

theorem checkResponse_twice_witness:
  "checkResponse options_lib (sample_response 500 ''oops'') =
     (Some (APIError \<lparr>Response = Some (sample_response 500 []), Message = ''oops'', Errors = None\<rparr>),
      sample_response 500 []) \<and>
   checkResponse options_lib (sample_response 500 []) =
     (Some (APIError \<lparr>Response = Some (sample_response 500 []), Message = [], Errors = None\<rparr>),
      sample_response 500 [])"
proof -
  obtain e2 r2 where second: "checkResponse options_lib (sample_response 500 []) = (e2, r2)"
    by (cases "checkResponse options_lib (sample_response 500 [])")
  have untouched:
    "Some (APIError \<lparr>Response = Some (sample_response 500 []), Message = ''oops'', Errors = None\<rparr>) \<noteq> None \<longrightarrow>
     sample_response 500 [] =
       (sample_response 500 ''oops'')\<lparr>Body := (Body (sample_response 500 ''oops''))\<lparr>pending := []\<rparr>\<rparr>"
    by (simp add: sample_response_def)
  from checkResponse_twice [OF checkResponse_oops second untouched]
  have "e2 \<noteq> None" and
    "e2 \<noteq> None \<longrightarrow> e2 = Some ((if StatusCode (sample_response 500 ''oops'') = 401 then AuthError else APIError)
        \<lparr>Response = Some (sample_response 500 []), Message = [], Errors = None\<rparr>)" and "r2 = sample_response 500 []"
    by simp_all
  then have "e2 = Some (APIError \<lparr>Response = Some (sample_response 500 []), Message = [], Errors = None\<rparr>)"
    and "r2 = sample_response 500 []"
    by (simp_all add: sample_response_def)
  with second checkResponse_oops show ?thesis by simp
qed

text \<open>
  The claim as stated fails on a 500 response with the body \<^verbatim>\<open>oops\<close>: the first
  error carries the body as its message, the second an empty message.
\<close>

theorem checkResponse_twice_counterexample:
  "fst (checkResponse options_lib (sample_response 500 ''oops'')) =
     Some (APIError \<lparr>Response = Some (sample_response 500 []), Message = ''oops'', Errors = None\<rparr>) \<and>
   fst (checkResponse options_lib (snd (checkResponse options_lib (sample_response 500 ''oops'')))) =
     Some (APIError \<lparr>Response = Some (sample_response 500 []), Message = [], Errors = None\<rparr>)"
  by (simp add: checkResponse_def readError_def ioutil_ReadAll_def Let_def sample_response_def
      options_lib_def lib_simps sample_Unmarshal_def)

section \<open>Query options: a nil pointer\<close>

text \<open>
  C8. For every base URL string, well-formed or not, \<^verbatim>\<open>addOptions\<close> on a nil
  pointer returns the string as it is, and no error.
\<close>

theorem addOptions_nil_pointer: "addOptions lib s NilPointer = Returns (s, None)"
  by (simp add: addOptions_def)

theorem addOptions_nil_pointer_witness:
  "isl (url_Parse options_lib '':'') \<and>
   addOptions options_lib '':'' NilPointer = Returns ('':'', None)"
  using addOptions_nil_pointer [of options_lib "'':''"]
  by (simp add: options_lib_def lib_simps sample_Parse_def)

section \<open>Building a request with a body\<close>

text \<open>
  C9. For every request built with method POST, PUT or DELETE, the body is the JSON
  text of the payload followed by a newline; for a nil payload it is
  \<^verbatim>\<open>null\<close> and the newline; it is never empty.
\<close>

theorem newRequest_body:
  assumes "method = ''POST'' \<or> method = ''PUT'' \<or> method = ''DELETE''"
      and "newRequest lib c method path body = Returns (Inr req)"
  shows "(\<exists>js. (case body of NonNil x \<Rightarrow> json_Marshal lib x = Inr js | _ \<Rightarrow> js = ''null'') \<and>
                ReqBody req = js @ [CHR 0x0A]) \<and>
         ReqBody req \<noteq> []"
proof -
  from assms obtain bytes r0 where
    enc: "json_Encode lib body = Inr bytes" and
    mk: "http_NewRequest lib method (apiBase c @ path) bytes = Inr r0" and
    req: "req = set_headers c r0"
    by (auto simp: newRequest_def request_parts_def split: sum.splits)
  have body: "ReqBody req = bytes"
    using http_NewRequest_ReqBody [OF mk] by (simp add: req set_headers_ReqBody)
  from enc obtain js where
    t: "case body of NonNil x \<Rightarrow> json_Marshal lib x = Inr js | _ \<Rightarrow> js = ''null''" and
    b: "bytes = js @ [CHR 0x0A]"
    by (cases body) (auto simp: json_Encode_def split: sum.splits)
  from t b body show ?thesis by auto
qed

theorem newRequest_body_witness:
  "(\<exists>req. newRequest int_lib sample_client ''POST'' ''/subscribers'' NilInterface = Returns (Inr req) \<and>
          ReqBody req = ''null'' @ [CHR 0x0A]) \<and>
   (\<exists>req. newRequest int_lib sample_client ''DELETE'' ''/subscribers'' (NonNil 7) = Returns (Inr req) \<and>
          ReqBody req = ''7'' @ [CHR 0x0A])"
proof -
  obtain r1 where r1: "newRequest int_lib sample_client ''POST'' ''/subscribers'' NilInterface = Returns (Inr r1)"
    by (simp add: newRequest_def request_parts_def json_Encode_def http_NewRequest_def
        int_lib_def lib_simps sample_Parse_def sample_client_def)
  obtain r2 where r2: "newRequest int_lib sample_client ''DELETE'' ''/subscribers'' (NonNil 7) = Returns (Inr r2)"
    by (simp add: newRequest_def request_parts_def json_Encode_def http_NewRequest_def
        int_lib_def lib_simps sample_Parse_def sample_client_def)
  have m: "json_Marshal int_lib 7 = Inr ''7''"
    by (simp add: int_lib_def lib_simps fmt_d_def decimal.simps [of 7])
  have "ReqBody r1 = ''null'' @ [CHR 0x0A]"
    using newRequest_body [OF _ r1] by simp
  moreover have "ReqBody r2 = ''7'' @ [CHR 0x0A]"
    using newRequest_body [OF _ r2] m by simp
  ultimately show ?thesis using r1 r2 by blast
qed

section \<open>Classification: a body that is empty or cannot be read\<close>

text \<open>
  C10. For every failing response whose body is empty or fails to be read,
  \<^verbatim>\<open>checkResponse\<close> returns the variant that goes with the status code, with an
  empty message and a nil errors payload; the read error is dropped.
\<close>

theorem checkResponse_unreadable_or_empty_body:
  assumes "StatusCode r \<noteq> 202" and "\<not> (200 \<le> StatusCode r \<and> StatusCode r \<le> 299)"
      and "fault (Body r) \<noteq> None \<or> pending (Body r) = []"
  shows "checkResponse lib r =
           (Some ((if StatusCode r = 401 then AuthError else APIError)
                    \<lparr>Response = Some (r\<lparr>Body := (Body r)\<lparr>pending := []\<rparr>\<rparr>),
                     Message = [], Errors = None\<rparr>),
            r\<lparr>Body := (Body r)\<lparr>pending := []\<rparr>\<rparr>)"
  using assms(1,2) by (simp add: checkResponse_def readError_no_decode [OF assms(3)])

theorem checkResponse_unreadable_or_empty_body_witness:
  "checkResponse options_lib (sample_response 401 []) =
     (Some (AuthError \<lparr>Response = Some (sample_response 401 []), Message = [], Errors = None\<rparr>),
      sample_response 401 []) \<and>
   checkResponse options_lib
       \<lparr>StatusCode = 500, Body = \<lparr>pending = ''par'', fault = Some ''unexpected EOF''\<rparr>,
        Request = Some sample_request\<rparr> =
     (Some (APIError
        \<lparr>Response = Some \<lparr>StatusCode = 500, Body = \<lparr>pending = [], fault = Some ''unexpected EOF''\<rparr>,
                            Request = Some sample_request\<rparr>,
         Message = [], Errors = None\<rparr>),
      \<lparr>StatusCode = 500, Body = \<lparr>pending = [], fault = Some ''unexpected EOF''\<rparr>,
       Request = Some sample_request\<rparr>)"
  using checkResponse_unreadable_or_empty_body [of "sample_response 401 []" options_lib]
    checkResponse_unreadable_or_empty_body
      [of "\<lparr>StatusCode = 500, Body = \<lparr>pending = ''par'', fault = Some ''unexpected EOF''\<rparr>,
            Request = Some sample_request\<rparr>" options_lib]
  by (simp add: sample_response_def)

end
